theory Spec2Isabelle
  imports Complex_Main "HOL-Library.Word"
begin

section \<open>The ROX bridge for the TDX formula host\<close>

text \<open>
  The bridge is one callback, \<open>RoxSignal\<close>, that the charting host calls with parallel
  float arrays, and one helper, \<open>CallRoxServer\<close>, that performs a single HTTP POST
  to the local scoring service through WinHTTP and turns the reply into a float
  (file \<open>tdx_bridge/main.cpp\<close>).

  The embedding keeps three things explicit that the C++ leaves implicit:
  \<^item> what WinHTTP answers during one call (a record \<open>exchange\<close>, one field per API step);
  \<^item> what the bridge does to WinHTTP (a record \<open>winhttp\<close>: the API calls made so far, in
    order, and the handles that are currently open);
  \<^item> the two ways the C++ can fail to return: a read or write outside a host array, and
    \<open>sprintf_s\<close> overflowing its 256-byte buffer (a value of type \<open>fault\<close>).

  The type \<open>float\<close> stays a type parameter \<open>'f\<close> with a zero: the code never computes
  with a float, it only stores \<open>0.0f\<close>, formats with \<open>%.2f\<close> and converts with \<open>atof\<close>.
\<close>

subsection \<open>Faults\<close>

datatype fault =
    AccessViolation    \<comment> \<open>an index outside the array the host passed\<close>
  | InvalidParameter   \<comment> \<open>\<open>sprintf_s\<close>: the formatted text does not fit the buffer\<close>

subsection \<open>The C runtime functions the bridge relies on\<close>

text \<open>
  \<open>strtod\<close> is the conversion that \<open>(float)atof(buffer)\<close> performs on its argument:
  \<open>None\<close> when the text does not start with a number (no conversion is performed),
  otherwise the float that results. \<open>printf_2f\<close> is the text that \<open>%.2f\<close> produces.
\<close>

record 'f crt =
  strtod :: "string \<Rightarrow> 'f option"
  printf_2f :: "'f \<Rightarrow> string"

definition atof :: "('f::zero) crt \<Rightarrow> string \<Rightarrow> 'f" where
  \<comment> \<open>C: when no conversion can be performed, \<open>atof\<close> returns zero\<close>
  "atof rt s = (case strtod rt s of None \<Rightarrow> 0 | Some v \<Rightarrow> v)"

definition c_str :: "string \<Rightarrow> string" where
  \<comment> \<open>the C string held by a buffer: the bytes before the first NUL\<close>
  "c_str bs = takeWhile (\<lambda>c. c \<noteq> CHR 0x00) bs"

definition sprintf_s :: "nat \<Rightarrow> string \<Rightarrow> fault + string" where
  \<comment> \<open>the text and its terminating NUL must fit; otherwise the invalid-parameter
      handler runs and the process is terminated\<close>
  "sprintf_s sizeOfBuffer s = (if length s < sizeOfBuffer then Inr s else Inl InvalidParameter)"

definition payload_text :: "'f crt \<Rightarrow> string \<Rightarrow> 'f \<Rightarrow> 'f \<Rightarrow> string" where
  \<comment> \<open>the format string of line 32 with its three arguments filled in\<close>
  \<open>payload_text rt stockCode price vol =
     ''{"code":"'' @ stockCode @ ''", "price":'' @ printf_2f rt price
       @ '', "vol":'' @ printf_2f rt vol @ ''}''\<close>

subsection \<open>WinHTTP\<close>

datatype handle_kind = Session | Connection | Request

datatype api_call =
    WinHttpOpen string                 \<comment> \<open>user agent\<close>
  | WinHttpConnect string nat          \<comment> \<open>server name, port\<close>
  | WinHttpOpenRequest string string   \<comment> \<open>verb, object name\<close>
  | WinHttpSetTimeouts int int int int \<comment> \<open>resolve, connect, send, receive (ms)\<close>
  | WinHttpSetOption nat
  | WinHttpSendRequest string string   \<comment> \<open>headers, body\<close>
  | WinHttpReceiveResponse
  | WinHttpQueryDataAvailable
  | WinHttpReadData nat                \<comment> \<open>bytes asked for\<close>
  | WinHttpCloseHandle handle_kind

text \<open>
  What WinHTTP and the service answer during one call of \<open>CallRoxServer\<close>. The fields
  are independent of each other; what links the API steps is written into
  \<open>query_data_available\<close> and \<open>read_data\<close> below: data is reported only for a response
  that was received, a read stores at most the number of bytes asked for, and a call
  that fails leaves its output variable as it was.
\<close>

record exchange =
  session_ok :: bool      \<comment> \<open>\<open>WinHttpOpen\<close> returns a handle\<close>
  connect_ok :: bool      \<comment> \<open>\<open>WinHttpConnect\<close> returns a handle\<close>
  request_ok :: bool      \<comment> \<open>\<open>WinHttpOpenRequest\<close> returns a handle\<close>
  send_ok :: bool         \<comment> \<open>\<open>WinHttpSendRequest\<close> returns TRUE\<close>
  receive_ok :: bool      \<comment> \<open>\<open>WinHttpReceiveResponse\<close> returns TRUE\<close>
  status :: nat           \<comment> \<open>the HTTP status code of the response\<close>
  query_ok :: bool        \<comment> \<open>\<open>WinHttpQueryDataAvailable\<close> returns TRUE\<close>
  avail :: "32 word"      \<comment> \<open>the size it reports\<close>
  read_ok :: bool         \<comment> \<open>\<open>WinHttpReadData\<close> returns TRUE\<close>
  body :: string          \<comment> \<open>the bytes of the response body\<close>

record winhttp =
  calls :: "api_call list"      \<comment> \<open>every API call made so far, oldest first\<close>
  live :: "handle_kind list"    \<comment> \<open>handles obtained and not yet closed\<close>

definition invoke :: "api_call \<Rightarrow> winhttp \<Rightarrow> winhttp" where
  "invoke c s = s\<lparr>calls := calls s @ [c]\<rparr>"

definition grant :: "bool \<Rightarrow> handle_kind \<Rightarrow> winhttp \<Rightarrow> winhttp" where
  \<comment> \<open>a successful open call hands out a handle\<close>
  "grant ok k s = (if ok then s\<lparr>live := k # live s\<rparr> else s)"

definition close_handle :: "bool \<Rightarrow> handle_kind \<Rightarrow> winhttp \<Rightarrow> winhttp" where
  \<comment> \<open>\<^verbatim>\<open>if (h) WinHttpCloseHandle(h);\<close>\<close>
  "close_handle h k s =
     (if h then invoke (WinHttpCloseHandle k) (s\<lparr>live := remove1 k (live s)\<rparr>) else s)"

definition query_data_available :: "exchange \<Rightarrow> 32 word \<Rightarrow> 32 word" where
  \<comment> \<open>the value of \<open>dwSize\<close> after the call: the reported size when the response headers
      were received and the query succeeds, otherwise the variable is left as it was\<close>
  "query_data_available x dwSize = (if receive_ok x \<and> query_ok x then avail x else dwSize)"

definition read_data :: "exchange \<Rightarrow> nat \<Rightarrow> string" where
  \<comment> \<open>the bytes stored in the buffer, \<open>dwDownloaded\<close> being their number: never more than
      asked for, and none when the call fails (\<open>dwDownloaded\<close> keeps its initial 0)\<close>
  "read_data x n = (if read_ok x then take n (body x) else [])"

subsection \<open>CallRoxServer\<close>

text \<open>
  Lines 29 to 53: the body of \<^verbatim>\<open>if (hRequest) { ... }\<close>. The result is the value of the
  local variable \<open>result\<close>, which starts at \<open>0.0f\<close> and is assigned only after a read.
  \<open>buffer[dwDownloaded] = 0\<close> stays inside the 64 bytes because \<open>dwDownloaded\<close> is at most
  \<open>dwSize\<close>, which is below 63.
\<close>

definition send_and_read ::
  "('f::zero) crt \<Rightarrow> string \<Rightarrow> 'f \<Rightarrow> 'f \<Rightarrow> exchange \<Rightarrow> winhttp \<Rightarrow> (fault + 'f) \<times> winhttp" where
  "send_and_read rt stockCode price vol x s =
     (case sprintf_s 256 (payload_text rt stockCode price vol) of
        Inl e \<Rightarrow> (Inl e, s)
      | Inr payload \<Rightarrow>
          let s1 = invoke (WinHttpSendRequest ''Content-Type: application/json'' payload) s in
          if send_ok x then
            let s2 = invoke WinHttpReceiveResponse s1;
                dwSize = query_data_available x 0;
                s3 = invoke WinHttpQueryDataAvailable s2
            in if 0 < dwSize \<and> dwSize < 63 then
                 let buffer = read_data x (unat dwSize);
                     s4 = invoke (WinHttpReadData (unat dwSize)) s3
                 in (Inr (atof rt (c_str buffer)), s4)
               else (Inr 0, s3)
          else (Inr 0, s1))"

definition CallRoxServer ::
  "('f::zero) crt \<Rightarrow> string \<Rightarrow> 'f \<Rightarrow> 'f \<Rightarrow> exchange \<Rightarrow> winhttp \<Rightarrow> (fault + 'f) \<times> winhttp" where
  "CallRoxServer rt stockCode price vol x s0 =
     (let hSession = session_ok x;
          s1 = grant hSession Session (invoke (WinHttpOpen ''RoxTdxBridge/1.0'') s0)
      in if \<not> hSession then (Inr 0, s1) else
      let hConnect = connect_ok x;
          s2 = grant hConnect Connection (invoke (WinHttpConnect ''127.0.0.1'' 8000) s1)
      in if \<not> hConnect then (Inr 0, close_handle True Session s2) else
      let hRequest = request_ok x;
          s3 = grant hRequest Request
                 (invoke (WinHttpOpenRequest ''POST'' ''/api/tdx/calculate'') s2)
      in case (if hRequest then send_and_read rt stockCode price vol x s3 else (Inr 0, s3)) of
           (Inl e, s4) \<Rightarrow> (Inl e, s4)
         | (Inr result, s4) \<Rightarrow>
             (Inr result,
              close_handle hSession Session
                (close_handle hConnect Connection (close_handle hRequest Request s4))))"

subsection \<open>RoxSignal\<close>

text \<open>
  The host's arrays are lists; an index outside a list is the fault \<open>AccessViolation\<close>.
  \<open>DataLen\<close> and the loop counter are C \<open>int\<close>s and are modelled by \<open>int\<close>: the counter
  is incremented only below \<open>DataLen\<close>, and 1 is subtracted from \<open>DataLen\<close> only when it is
  positive, so no operation of the callback can overflow. The third input array,
  \<open>pfINc\<close>, is never read.
\<close>

definition load :: "'a list \<Rightarrow> int \<Rightarrow> fault + 'a" where
  "load xs i = (if 0 \<le> i \<and> i < int (length xs) then Inr (xs ! nat i) else Inl AccessViolation)"

definition store :: "'a list \<Rightarrow> int \<Rightarrow> 'a \<Rightarrow> fault + 'a list" where
  "store xs i v =
     (if 0 \<le> i \<and> i < int (length xs) then Inr (xs[nat i := v]) else Inl AccessViolation)"

text \<open>Line 87: \<^verbatim>\<open>for(int i=0; i<DataLen; i++) pfOUT[i] = 0.0f;\<close>\<close>

function init_output :: "int \<Rightarrow> int \<Rightarrow> ('f::zero) list \<Rightarrow> fault + 'f list" where
  "init_output i DataLen pfOUT =
     (if i < DataLen then
        (case store pfOUT i 0 of
           Inl e \<Rightarrow> Inl e
         | Inr out \<Rightarrow> init_output (i + 1) DataLen out)
      else Inr pfOUT)"
  by pat_completeness auto
termination
  by (relation "measure (\<lambda>(i, DataLen, pfOUT). nat (DataLen - i))") auto

declare init_output.simps [simp del]

definition RoxSignal ::
  "('f::zero) crt \<Rightarrow> int \<Rightarrow> 'f list \<Rightarrow> 'f list \<Rightarrow> 'f list \<Rightarrow> 'f list \<Rightarrow> exchange \<Rightarrow> winhttp
     \<Rightarrow> (fault + 'f list) \<times> winhttp" where
  "RoxSignal rt DataLen pfOUT pfINa pfINb pfINc x s =
     (case init_output 0 DataLen pfOUT of
        Inl e \<Rightarrow> (Inl e, s)
      | Inr out \<Rightarrow>
          if DataLen > 0 then
            (case load pfINa (DataLen - 1) of
               Inl e \<Rightarrow> (Inl e, s)
             | Inr lastPrice \<Rightarrow>
                 (case load pfINb (DataLen - 1) of
                    Inl e \<Rightarrow> (Inl e, s)
                  | Inr lastVol \<Rightarrow>
                      (case CallRoxServer rt ''UNKNOWN'' lastPrice lastVol x s of
                         (Inl e, s') \<Rightarrow> (Inl e, s')
                       | (Inr signal, s') \<Rightarrow> (store out (DataLen - 1) signal, s'))))
          else (Inr out, s))"

subsection \<open>Observations on a WinHTTP state and on an exchange\<close>

fun is_open :: "api_call \<Rightarrow> bool" where
  "is_open (WinHttpOpen _) = True"
| "is_open _ = False"

fun is_request :: "api_call \<Rightarrow> bool" where
  "is_request (WinHttpSendRequest _ _) = True"
| "is_request _ = False"

fun configures_timeout :: "api_call \<Rightarrow> bool" where
  "configures_timeout (WinHttpSetTimeouts _ _ _ _) = True"
| "configures_timeout (WinHttpSetOption _) = True"
| "configures_timeout _ = False"

fun request_body :: "api_call \<Rightarrow> string list" where
  "request_body (WinHttpSendRequest _ b) = [b]"
| "request_body _ = []"

definition request_bodies :: "winhttp \<Rightarrow> string list" where
  \<comment> \<open>the bodies of the requests sent so far, oldest first\<close>
  "request_bodies s = concat (map request_body (calls s))"

definition sessions_opened :: "winhttp \<Rightarrow> nat" where
  "sessions_opened s = length (filter is_open (calls s))"

definition requests_sent :: "winhttp \<Rightarrow> nat" where
  \<comment> \<open>the network calls issued so far: one per \<open>WinHttpSendRequest\<close>\<close>
  "requests_sent s = length (filter is_request (calls s))"

definition reaches_send :: "exchange \<Rightarrow> bool" where
  \<comment> \<open>the three handles are obtained, so the request is handed to \<open>WinHttpSendRequest\<close>\<close>
  "reaches_send x = (session_ok x \<and> connect_ok x \<and> request_ok x)"

definition first_chunk :: "exchange \<Rightarrow> string" where
  \<comment> \<open>what the single \<open>WinHttpReadData\<close> call of the bridge stores in \<open>buffer\<close>\<close>
  "first_chunk x = read_data x (unat (avail x))"

definition chunk_readable :: "exchange \<Rightarrow> bool" where
  \<comment> \<open>the exchange gets as far as the size test of line 47 and passes it\<close>
  "chunk_readable x =
     (reaches_send x \<and> send_ok x \<and> receive_ok x \<and> query_ok x \<and> 0 < avail x \<and> avail x < 63)"

definition network_failure :: "'f crt \<Rightarrow> exchange \<Rightarrow> bool" where
  \<comment> \<open>a step of the network path fails: session open, connect, request open, send,
      receive, the size query, the read, or the parse of what was read\<close>
  "network_failure rt x =
     (\<not> session_ok x \<or> \<not> connect_ok x \<or> \<not> request_ok x \<or> \<not> send_ok x \<or> \<not> receive_ok x
      \<or> \<not> query_ok x \<or> \<not> read_ok x \<or> strtod rt (c_str (first_chunk x)) = None)"

definition host_contract :: "int \<Rightarrow> 'f list \<Rightarrow> 'f list \<Rightarrow> 'f list \<Rightarrow> bool" where
  \<comment> \<open>the host passes arrays that hold at least \<open>DataLen\<close> elements\<close>
  "host_contract DataLen pfOUT pfINa pfINb =
     (DataLen \<le> int (length pfOUT) \<and> DataLen \<le> int (length pfINa)
      \<and> DataLen \<le> int (length pfINb))"

definition last_bar :: "int \<Rightarrow> 'a list \<Rightarrow> 'a" where
  \<comment> \<open>\<^verbatim>\<open>pfIN[DataLen-1]\<close>, for an array that holds \<open>DataLen > 0\<close> elements\<close>
  "last_bar DataLen xs = xs ! nat (DataLen - 1)"

definition defaults :: "int \<Rightarrow> ('f::zero) list \<Rightarrow> 'f list" where
  \<comment> \<open>the output buffer with its first \<open>DataLen\<close> slots set to 0.0\<close>
  "defaults DataLen pfOUT = replicate (nat DataLen) 0 @ drop (nat DataLen) pfOUT"

definition payload_fits :: "'f crt \<Rightarrow> 'f \<Rightarrow> 'f \<Rightarrow> bool" where
  \<comment> \<open>the request text for these two numbers fits \<open>char payload[256]\<close>; a float printed
      with \<open>%.2f\<close> has at most 43 characters, so the text has at most 122\<close>
  "payload_fits rt price vol = (length (payload_text rt ''UNKNOWN'' price vol) < 256)"

subsection \<open>A decimal runtime for the examples\<close>

text \<open>
  The examples run the bridge on a runtime whose numbers are reals written in plain
  decimal notation (blanks, a sign, digits, a point, digits). It stands for the C runtime
  on the values the examples use (0, 1, 10 and 500), which a float represents exactly.
\<close>

definition is_space :: "char \<Rightarrow> bool" where
  "is_space c = ((of_char c :: nat) = 32 \<or> (9 \<le> (of_char c :: nat) \<and> (of_char c :: nat) \<le> 13))"

definition is_digit :: "char \<Rightarrow> bool" where
  "is_digit c = (48 \<le> (of_char c :: nat) \<and> (of_char c :: nat) \<le> 57)"

definition number_of :: "string \<Rightarrow> nat" where
  "number_of ds = foldl (\<lambda>n c. 10 * n + (of_char c - 48)) 0 ds"

definition dec_strtod :: "string \<Rightarrow> real option" where
  "dec_strtod s =
     (let t = dropWhile is_space s;
          negative = (t \<noteq> [] \<and> hd t = CHR ''-'');
          u = (if t \<noteq> [] \<and> (hd t = CHR ''-'' \<or> hd t = CHR ''+'') then tl t else t);
          ip = takeWhile is_digit u;
          r = dropWhile is_digit u;
          fp = (if r \<noteq> [] \<and> hd r = CHR ''.'' then takeWhile is_digit (tl r) else [])
      in if ip = [] \<and> fp = [] then None
         else Some ((if negative then - 1 else 1)
                * (real (number_of ip) + real (number_of fp) / 10 ^ length fp)))"

definition digit :: "nat \<Rightarrow> char" where
  "digit d = ''0123456789'' ! (d mod 10)"

fun decimal :: "nat \<Rightarrow> string" where
  "decimal n = (if n < 10 then [digit n] else decimal (n div 10) @ [digit (n mod 10)])"

declare decimal.simps [simp del]

definition dec_printf_2f :: "real \<Rightarrow> string" where
  \<comment> \<open>\<open>h\<close> is the number of hundredths, rounded\<close>
  "dec_printf_2f v =
     (let h = nat (round (\<bar>v\<bar> * 100))
      in (if v < 0 then ''-'' else []) @ decimal (h div 100) @ ''.''
           @ [digit (h div 10), digit h])"

definition dec_crt :: "real crt" where
  "dec_crt = \<lparr>strtod = dec_strtod, printf_2f = dec_printf_2f\<rparr>"

definition idle :: winhttp where
  \<comment> \<open>the bridge has not touched WinHTTP yet\<close>
  "idle = \<lparr>calls = [], live = []\<rparr>"

definition reply :: "nat \<Rightarrow> string \<Rightarrow> exchange" where
  \<comment> \<open>every API step succeeds; the service answers with this status and this body\<close>
  "reply code text =
     \<lparr>session_ok = True, connect_ok = True, request_ok = True, send_ok = True,
      receive_ok = True, status = code, query_ok = True, avail = of_nat (length text),
      read_ok = True, body = text\<rparr>"

text \<open>Three bars of an instrument, and an output buffer that still holds old values.\<close>

definition closes :: "real list" where "closes = [9, 9, 10]"
definition volumes :: "real list" where "volumes = [400, 450, 500]"
definition stale :: "real list" where "stale = [7, 7, 7]"

section \<open>Properties of the embedding\<close>

subsection \<open>The initialisation loop\<close>

lemma init_output_done: "DataLen \<le> i \<Longrightarrow> init_output i DataLen pfOUT = Inr pfOUT"
  by (simp add: init_output.simps)

lemma init_output_nth:
  "0 \<le> i \<Longrightarrow> DataLen \<le> int (length pfOUT) \<Longrightarrow>
   \<exists>out. init_output i DataLen pfOUT = Inr out \<and> length out = length pfOUT
     \<and> (\<forall>j < length pfOUT. out ! j = (if i \<le> int j \<and> int j < DataLen then 0 else pfOUT ! j))"
proof (induction i DataLen pfOUT rule: init_output.induct)
  case (1 i DataLen pfOUT)
  show ?case
  proof (cases "i < DataLen")
    case False
    then show ?thesis by (auto simp add: init_output.simps)
  next
    case True
    with "1.prems" have st: "store pfOUT i 0 = Inr (pfOUT[nat i := 0])"
      by (simp add: store_def)
    from "1.IH"[OF True st] "1.prems"
    obtain out where o: "init_output (i + 1) DataLen (pfOUT[nat i := 0]) = Inr out"
      "length out = length pfOUT"
      "\<forall>j < length pfOUT. out ! j = (if i + 1 \<le> int j \<and> int j < DataLen then 0 else pfOUT[nat i := 0] ! j)"
      by auto
    have "init_output i DataLen pfOUT = Inr out"
      using True st o(1) by (subst init_output.simps) simp
    moreover have "\<forall>j < length pfOUT. out ! j = (if i \<le> int j \<and> int j < DataLen then 0 else pfOUT ! j)"
      using o(3) "1.prems" True by (auto simp: nth_list_update)
    ultimately show ?thesis using o(2) by blast
  qed
qed

lemma init_output_fill:
  assumes "DataLen \<le> int (length pfOUT)"
  shows "init_output 0 DataLen pfOUT = Inr (defaults DataLen pfOUT)"
proof -
  from init_output_nth [of 0 DataLen pfOUT] assms
  obtain out where o: "init_output 0 DataLen pfOUT = Inr out" "length out = length pfOUT"
    "\<forall>j < length pfOUT. out ! j = (if 0 \<le> int j \<and> int j < DataLen then 0 else pfOUT ! j)"
    by auto
  have "out = defaults DataLen pfOUT"
  proof (rule nth_equalityI)
    show "length out = length (defaults DataLen pfOUT)"
      using o(2) assms by (simp add: defaults_def)
  next
    fix j assume "j < length out"
    then show "out ! j = defaults DataLen pfOUT ! j"
      using o(2,3) assms by (auto simp: defaults_def nth_append)
  qed
  with o(1) show ?thesis by simp
qed

lemma length_defaults:
  "DataLen \<le> int (length pfOUT) \<Longrightarrow> length (defaults DataLen pfOUT) = length pfOUT"
  by (simp add: defaults_def)

lemma defaults_nth:
  "j < nat DataLen \<Longrightarrow> defaults DataLen pfOUT ! j = 0"
  by (simp add: defaults_def nth_append)

lemma defaults_drop:
  "DataLen \<le> int (length pfOUT) \<Longrightarrow>
     drop (nat DataLen) (defaults DataLen pfOUT) = drop (nat DataLen) pfOUT"
  by (simp add: defaults_def)

lemma defaults_nothing: "DataLen \<le> 0 \<Longrightarrow> defaults DataLen pfOUT = pfOUT"
  by (simp add: defaults_def)

lemma defaults_update_zero:
  "0 < DataLen \<Longrightarrow> (defaults DataLen pfOUT)[nat (DataLen - 1) := 0] = defaults DataLen pfOUT"
  by (rule list_update_same_conv [THEN iffD2]) (simp_all add: defaults_def nth_append)

subsection \<open>One exchange with the service\<close>

lemma size_test:
  "(0 < query_data_available x 0 \<and> query_data_available x 0 < 63)
     = (receive_ok x \<and> query_ok x \<and> 0 < avail x \<and> avail x < 63)"
  by (auto simp add: query_data_available_def)

lemma send_and_read_value:
  assumes "length (payload_text rt code p v) < 256"
  shows "fst (send_and_read rt code p v x s) =
     Inr (if send_ok x \<and> receive_ok x \<and> query_ok x \<and> 0 < avail x \<and> avail x < 63
          then atof rt (c_str (first_chunk x)) else 0)"
  using assms
  by (simp add: send_and_read_def sprintf_s_def Let_def query_data_available_def first_chunk_def)

lemma CallRoxServer_value:
  assumes "length (payload_text rt code p v) < 256"
  shows "fst (CallRoxServer rt code p v x s) =
     Inr (if chunk_readable x then atof rt (c_str (first_chunk x)) else 0)"
proof -
  obtain r s' where sr: "send_and_read rt code p v x
        (grant True Request (invoke (WinHttpOpenRequest ''POST'' ''/api/tdx/calculate'')
          (grant True Connection (invoke (WinHttpConnect ''127.0.0.1'' 8000)
            (grant True Session (invoke (WinHttpOpen ''RoxTdxBridge/1.0'') s)))))) = (r, s')"
    by (cases "send_and_read rt code p v x
        (grant True Request (invoke (WinHttpOpenRequest ''POST'' ''/api/tdx/calculate'')
          (grant True Connection (invoke (WinHttpConnect ''127.0.0.1'' 8000)
            (grant True Session (invoke (WinHttpOpen ''RoxTdxBridge/1.0'') s))))))")
  from send_and_read_value [OF assms, of x] sr
  have r: "r = Inr (if send_ok x \<and> receive_ok x \<and> query_ok x \<and> 0 < avail x \<and> avail x < 63
          then atof rt (c_str (first_chunk x)) else 0)"
    by (metis fst_conv)
  show ?thesis
    using sr r by (simp add: CallRoxServer_def Let_def chunk_readable_def reaches_send_def)
qed


lemma CallRoxServer_returns:
  assumes "length (payload_text rt code p v) < 256"
  shows "CallRoxServer rt code p v x s =
     (Inr (if chunk_readable x then atof rt (c_str (first_chunk x)) else 0),
      snd (CallRoxServer rt code p v x s))"
  using CallRoxServer_value [OF assms, of x s] by (simp add: prod_eq_iff)

lemmas exchange_steps =
  CallRoxServer_def send_and_read_def sprintf_s_def Let_def invoke_def grant_def
  close_handle_def

lemma CallRoxServer_live:
  assumes "length (payload_text rt code p v) < 256"
  shows "live (snd (CallRoxServer rt code p v x s)) = live s"
  using assms by (simp add: exchange_steps)

lemma CallRoxServer_first_call:
  "\<exists>t. calls (snd (CallRoxServer rt code p v x s)) = calls s @ WinHttpOpen ''RoxTdxBridge/1.0'' # t"
  by (simp add: exchange_steps split: sum.split)

lemma CallRoxServer_sessions:
  "sessions_opened (snd (CallRoxServer rt code p v x s)) = sessions_opened s + 1"
  by (simp add: exchange_steps sessions_opened_def split: sum.split)

lemma CallRoxServer_requests:
  assumes "length (payload_text rt code p v) < 256"
  shows "requests_sent (snd (CallRoxServer rt code p v x s)) =
           requests_sent s + (if reaches_send x then 1 else 0)"
  using assms by (simp add: exchange_steps requests_sent_def reaches_send_def)

lemma CallRoxServer_bodies:
  assumes "length (payload_text rt code p v) < 256"
  shows "request_bodies (snd (CallRoxServer rt code p v x s)) =
           request_bodies s @ (if reaches_send x then [payload_text rt code p v] else [])"
  using assms by (simp add: exchange_steps request_bodies_def reaches_send_def)

lemma CallRoxServer_timeouts:
  "filter configures_timeout (calls (snd (CallRoxServer rt code p v x s))) =
     filter configures_timeout (calls s)"
  by (simp add: exchange_steps split: sum.split)

lemma query_data_available_status:
  "query_data_available (x\<lparr>status := k\<rparr>) = query_data_available x"
  by (rule ext) (simp add: query_data_available_def)

lemma read_data_status: "read_data (x\<lparr>status := k\<rparr>) = read_data x"
  by (rule ext) (simp add: read_data_def)

lemma send_and_read_status:
  "send_and_read rt code p v (x\<lparr>status := k\<rparr>) s = send_and_read rt code p v x s"
  unfolding send_and_read_def query_data_available_status read_data_status
  by (cases "sprintf_s 256 (payload_text rt code p v)") simp_all

lemma CallRoxServer_status:
  "CallRoxServer rt code p v (x\<lparr>status := k\<rparr>) s = CallRoxServer rt code p v x s"
  by (simp add: CallRoxServer_def send_and_read_status Let_def)

subsection \<open>The callback\<close>

lemma RoxSignal_nothing_to_do:
  "DataLen \<le> 0 \<Longrightarrow> RoxSignal rt DataLen pfOUT pfINa pfINb pfINc x s = (Inr pfOUT, s)"
  by (simp add: RoxSignal_def init_output_done)

lemma RoxSignal_value:
  assumes "0 < DataLen" and "host_contract DataLen pfOUT pfINa pfINb"
    and "payload_fits rt (last_bar DataLen pfINa) (last_bar DataLen pfINb)"
  shows "RoxSignal rt DataLen pfOUT pfINa pfINb pfINc x s =
     (Inr ((defaults DataLen pfOUT)
             [nat (DataLen - 1) :=
                (if chunk_readable x then atof rt (c_str (first_chunk x)) else 0)]),
      snd (CallRoxServer rt ''UNKNOWN'' (last_bar DataLen pfINa) (last_bar DataLen pfINb) x s))"
proof -
  from assms(2) have fill: "init_output 0 DataLen pfOUT = Inr (defaults DataLen pfOUT)"
    by (simp add: init_output_fill host_contract_def)
  from assms(1,2) have la: "load pfINa (DataLen - 1) = Inr (last_bar DataLen pfINa)"
    and lb: "load pfINb (DataLen - 1) = Inr (last_bar DataLen pfINb)"
    by (simp_all add: load_def host_contract_def last_bar_def)
  from assms(3) have fits:
    "length (payload_text rt ''UNKNOWN'' (last_bar DataLen pfINa) (last_bar DataLen pfINb)) < 256"
    by (simp add: payload_fits_def)
  have st: "store (defaults DataLen pfOUT) (DataLen - 1) w =
      Inr ((defaults DataLen pfOUT)[nat (DataLen - 1) := w])" for w :: 'a
    using assms(1,2) by (simp add: store_def host_contract_def defaults_def)
  obtain r s' where c:
    "CallRoxServer rt ''UNKNOWN'' (last_bar DataLen pfINa) (last_bar DataLen pfINb) x s = (r, s')"
    by (cases "CallRoxServer rt ''UNKNOWN'' (last_bar DataLen pfINa) (last_bar DataLen pfINb) x s")
  with CallRoxServer_value [OF fits, of x s]
  have r: "r = Inr (if chunk_readable x then atof rt (c_str (first_chunk x)) else 0)"
    by simp
  show ?thesis
    by (simp add: RoxSignal_def fill la lb st assms(1) c r)
qed

lemma failure_gives_zero:
  assumes "strtod rt [] = None" and "network_failure rt x"
  shows "(if chunk_readable x then atof rt (c_str (first_chunk x)) else 0) = 0"
proof (cases "read_ok x")
  case False
  then have "c_str (first_chunk x) = []"
    by (simp add: first_chunk_def read_data_def c_str_def)
  with assms(1) show ?thesis by (simp add: atof_def)
next
  case True
  with assms(2) show ?thesis
    by (auto simp: network_failure_def chunk_readable_def reaches_send_def atof_def)
qed

lemma RoxSignal_requests:
  assumes "0 < DataLen" and "host_contract DataLen pfOUT pfINa pfINb"
    and "payload_fits rt (last_bar DataLen pfINa) (last_bar DataLen pfINb)"
  shows "requests_sent (snd (RoxSignal rt DataLen pfOUT pfINa pfINb pfINc x s)) =
           requests_sent s + (if reaches_send x then 1 else 0)"
proof -
  from assms(3) have "length (payload_text rt ''UNKNOWN'' (last_bar DataLen pfINa)
      (last_bar DataLen pfINb)) < 256"
    by (simp add: payload_fits_def)
  then show ?thesis
    by (simp only: RoxSignal_value [OF assms] snd_conv CallRoxServer_requests)
qed

lemma RoxSignal_sessions:
  assumes "0 < DataLen" and "host_contract DataLen pfOUT pfINa pfINb"
    and "payload_fits rt (last_bar DataLen pfINa) (last_bar DataLen pfINb)"
  shows "sessions_opened (snd (RoxSignal rt DataLen pfOUT pfINa pfINb pfINc x s)) =
           sessions_opened s + 1"
  by (simp only: RoxSignal_value [OF assms] snd_conv CallRoxServer_sessions)

lemma RoxSignal_bodies:
  assumes "0 < DataLen" and "host_contract DataLen pfOUT pfINa pfINb"
    and "payload_fits rt (last_bar DataLen pfINa) (last_bar DataLen pfINb)"
  shows "request_bodies (snd (RoxSignal rt DataLen pfOUT pfINa pfINb pfINc x s)) =
           request_bodies s @
             (if reaches_send x
              then [payload_text rt ''UNKNOWN'' (last_bar DataLen pfINa) (last_bar DataLen pfINb)]
              else [])"
proof -
  from assms(3) have "length (payload_text rt ''UNKNOWN'' (last_bar DataLen pfINa)
      (last_bar DataLen pfINb)) < 256"
    by (simp add: payload_fits_def)
  then show ?thesis
    by (simp only: RoxSignal_value [OF assms] snd_conv CallRoxServer_bodies)
qed

subsection \<open>The decimal runtime on the examples\<close>

lemmas dec_strtod_steps = dec_strtod_def is_space_def is_digit_def number_of_def

lemma dec_strtod_one: "dec_strtod ''1.00'' = Some 1"
  by (simp add: dec_strtod_steps)

lemma dec_strtod_zero: "dec_strtod ''0.00'' = Some 0"
  by (simp add: dec_strtod_steps)

lemma dec_strtod_text: "dec_strtod ''Internal Server Error'' = None"
  by (simp add: dec_strtod_steps)

lemma dec_strtod_empty: "dec_strtod [] = None"
  by (simp add: dec_strtod_steps)

lemma dec_printf_2f_10: "dec_printf_2f 10 = ''10.00''"
  by (simp add: dec_printf_2f_def decimal.simps digit_def)

lemma dec_printf_2f_500: "dec_printf_2f 500 = ''500.00''"
  by (simp add: dec_printf_2f_def decimal.simps digit_def)

lemma payload_example:
  \<open>payload_text dec_crt ''UNKNOWN'' 10 500 = ''{"code":"UNKNOWN", "price":10.00, "vol":500.00}''\<close>
  by (simp add: payload_text_def dec_crt_def dec_printf_2f_10 dec_printf_2f_500)

lemma last_bars: "last_bar 3 closes = 10" "last_bar 3 volumes = 500"
  by (simp_all add: last_bar_def closes_def volumes_def)

lemma example_contract: "host_contract 3 stale closes volumes"
  by (simp add: host_contract_def stale_def closes_def volumes_def)

lemma example_fits: "payload_fits dec_crt (last_bar 3 closes) (last_bar 3 volumes)"
  by (simp add: payload_fits_def last_bars payload_example)

lemma unat_short: "n < 63 \<Longrightarrow> unat (of_nat n :: 32 word) = n"
  by (simp add: unat_of_nat)

lemma reply_readable:
  "0 < length text \<Longrightarrow> length text < 63 \<Longrightarrow> chunk_readable (reply code text)"
  by (simp add: chunk_readable_def reaches_send_def reply_def word_less_nat_alt unat_short)

lemma reply_chunk: "length text < 63 \<Longrightarrow> first_chunk (reply code text) = text"
  by (simp add: first_chunk_def read_data_def reply_def unat_short)

lemma example_output: "(defaults 3 stale)[2 := v] = [0, 0, v]"
  by (simp add: defaults_def stale_def numeral_3_eq_3 numeral_2_eq_2)

lemma example_defaults: "defaults 3 stale = [0, 0, 0]"
  by (simp add: defaults_def stale_def numeral_3_eq_3)

lemma idle_counts: "requests_sent idle = 0" "sessions_opened idle = 0" "request_bodies idle = []"
  by (simp_all add: requests_sent_def sessions_opened_def request_bodies_def idle_def)

lemma reply_reaches_send: "reaches_send (reply code text)"
  by (simp add: reaches_send_def reply_def)

lemma example_payload_fits: "length (payload_text dec_crt ''UNKNOWN'' 10 500) < 256"
  by (simp add: payload_example)

lemma example_exchange:
  "CallRoxServer dec_crt ''UNKNOWN'' 10 500 (reply code ''1.00'') s =
     (Inr 1,
      s\<lparr>calls := calls s @
          [WinHttpOpen ''RoxTdxBridge/1.0'', WinHttpConnect ''127.0.0.1'' 8000,
           WinHttpOpenRequest ''POST'' ''/api/tdx/calculate'',
           WinHttpSendRequest ''Content-Type: application/json''
             (payload_text dec_crt ''UNKNOWN'' 10 500),
           WinHttpReceiveResponse, WinHttpQueryDataAvailable, WinHttpReadData 4,
           WinHttpCloseHandle Request, WinHttpCloseHandle Connection,
           WinHttpCloseHandle Session]\<rparr>)"
proof -
  have "sprintf_s 256 (payload_text dec_crt ''UNKNOWN'' 10 500)
      = Inr (payload_text dec_crt ''UNKNOWN'' 10 500)"
    using example_payload_fits by (simp add: sprintf_s_def)
  moreover have "atof dec_crt (c_str ''1.00'') = 1"
    by (simp add: c_str_def atof_def dec_crt_def dec_strtod_one)
  ultimately show ?thesis
    by (simp add: CallRoxServer_def send_and_read_def Let_def invoke_def grant_def
          close_handle_def reply_def query_data_available_def read_data_def)
qed


lemma example_run:
  "RoxSignal dec_crt 3 stale closes volumes [] x s =
     (Inr [0, 0, if chunk_readable x then atof dec_crt (c_str (first_chunk x)) else 0],
      snd (CallRoxServer dec_crt ''UNKNOWN'' 10 500 x s))"
  by (simp only: RoxSignal_value [OF _ example_contract example_fits] last_bars)
    (simp add: example_output)

section \<open>The claims\<close>

subsection \<open>C1: every output slot is written\<close>

text \<open>
  Claim C1. For every invocation with \<open>DataLen = n > 0\<close> on arrays that hold \<open>n\<close> elements,
  the callback returns an output buffer of unchanged length in which slots \<open>0\<close> to \<open>n - 2\<close>
  are 0.0 and slot \<open>n - 1\<close> is the value that \<open>CallRoxServer\<close> returned for the last bar;
  elements beyond \<open>n\<close> are untouched. The default fill is the first thing the callback
  does: the loop alone already yields the buffer with all \<open>n\<close> slots set to 0.0.
\<close>

theorem RoxSignal_writes_every_slot:
  assumes "0 < DataLen" and "host_contract DataLen pfOUT pfINa pfINb"
    and "payload_fits rt (last_bar DataLen pfINa) (last_bar DataLen pfINb)"
  shows "\<exists>signal s' out.
     CallRoxServer rt ''UNKNOWN'' (last_bar DataLen pfINa) (last_bar DataLen pfINb) x s
       = (Inr signal, s')
     \<and> init_output 0 DataLen pfOUT = Inr (defaults DataLen pfOUT)
     \<and> RoxSignal rt DataLen pfOUT pfINa pfINb pfINc x s = (Inr out, s')
     \<and> length out = length pfOUT
     \<and> (\<forall>i. int i < DataLen - 1 \<longrightarrow> out ! i = 0)
     \<and> out ! nat (DataLen - 1) = signal
     \<and> drop (nat DataLen) out = drop (nat DataLen) pfOUT"
proof -
  let ?v = "if chunk_readable x then atof rt (c_str (first_chunk x)) else 0"
  let ?s = "snd (CallRoxServer rt ''UNKNOWN'' (last_bar DataLen pfINa) (last_bar DataLen pfINb) x s)"
  let ?out = "(defaults DataLen pfOUT)[nat (DataLen - 1) := ?v]"
  from assms(2) have len: "DataLen \<le> int (length pfOUT)"
    by (simp add: host_contract_def)
  from assms(3) have "CallRoxServer rt ''UNKNOWN'' (last_bar DataLen pfINa)
      (last_bar DataLen pfINb) x s = (Inr ?v, ?s)"
    unfolding payload_fits_def by (rule CallRoxServer_returns)
  moreover from len have "init_output 0 DataLen pfOUT = Inr (defaults DataLen pfOUT)"
    by (rule init_output_fill)
  moreover from assms have "RoxSignal rt DataLen pfOUT pfINa pfINb pfINc x s = (Inr ?out, ?s)"
    by (rule RoxSignal_value)
  moreover from len have "length ?out = length pfOUT"
    by (simp add: length_defaults)
  moreover have "\<forall>i. int i < DataLen - 1 \<longrightarrow> ?out ! i = 0"
    by (auto simp: defaults_nth)
  moreover from assms(1) len have "?out ! nat (DataLen - 1) = ?v"
    by (simp add: length_defaults)
  moreover from assms(1) len have "drop (nat DataLen) ?out = drop (nat DataLen) pfOUT"
    by (simp add: defaults_drop)
  ultimately show ?thesis by blast
qed

text \<open>
  The example of the claim: the service answers \<open>1.00\<close> for price 10.00 and volume 500.00;
  the three stale slots become 0.0, 0.0 and 1.0.
\<close>

theorem RoxSignal_writes_every_slot_witness:
  "(0::int) < 3 \<and> host_contract 3 stale closes volumes
   \<and> payload_fits dec_crt (last_bar 3 closes) (last_bar 3 volumes)
   \<and> (\<exists>signal s' out.
     CallRoxServer dec_crt ''UNKNOWN'' (last_bar 3 closes) (last_bar 3 volumes)
        (reply 200 ''1.00'') idle = (Inr signal, s')
     \<and> init_output 0 3 stale = Inr (defaults 3 stale)
     \<and> RoxSignal dec_crt 3 stale closes volumes [] (reply 200 ''1.00'') idle = (Inr out, s')
     \<and> length out = length stale
     \<and> (\<forall>i. int i < 3 - 1 \<longrightarrow> out ! i = 0)
     \<and> out ! nat (3 - 1) = signal
     \<and> drop (nat 3) out = drop (nat 3) stale)
   \<and> fst (RoxSignal dec_crt 3 stale closes volumes [] (reply 200 ''1.00'') idle) = Inr [0, 0, 1]"
proof -
  have h1: "(0::int) < 3" by simp
  note h2 = example_contract and h3 = example_fits
  have "fst (RoxSignal dec_crt 3 stale closes volumes [] (reply 200 ''1.00'') idle) = Inr [0, 0, 1]"
    by (subst RoxSignal_value [OF h1 h2 h3])
      (simp add: example_output reply_readable reply_chunk c_str_def atof_def dec_crt_def
         dec_strtod_one)
  with RoxSignal_writes_every_slot
      [OF h1 h2 h3, where pfINc = "[]" and x = "reply 200 ''1.00''" and s = idle] h1 h2 h3
  show ?thesis by blast
qed

subsection \<open>C2: failures of the network path are absorbed\<close>

text \<open>
  Claim C2. Every invocation on arrays that hold \<open>DataLen\<close> elements returns normally (the
  result is an output buffer, never a fault), and when a step of the network path fails
  (session open, connect, request open, send, receive, size query, read, or the parse of
  what was read) the buffer returned is the default-filled one: its first \<open>DataLen\<close> slots
  are 0.0. The runtime is assumed to convert the empty string to no number, as C does.
\<close>

theorem RoxSignal_absorbs_failures:
  assumes "host_contract DataLen pfOUT pfINa pfINb"
    and "0 < DataLen \<longrightarrow> payload_fits rt (last_bar DataLen pfINa) (last_bar DataLen pfINb)"
    and "strtod rt [] = None"
  shows "\<exists>out s'. RoxSignal rt DataLen pfOUT pfINa pfINb pfINc x s = (Inr out, s')
           \<and> (network_failure rt x \<longrightarrow> out = defaults DataLen pfOUT)"
proof (cases "0 < DataLen")
  case False
  then have "RoxSignal rt DataLen pfOUT pfINa pfINb pfINc x s = (Inr pfOUT, s)"
    by (simp add: RoxSignal_nothing_to_do)
  moreover from False have "defaults DataLen pfOUT = pfOUT"
    by (simp add: defaults_nothing)
  ultimately show ?thesis by simp
next
  case True
  let ?v = "if chunk_readable x then atof rt (c_str (first_chunk x)) else 0"
  from True assms(2) have fits: "payload_fits rt (last_bar DataLen pfINa) (last_bar DataLen pfINb)"
    by simp
  have run: "RoxSignal rt DataLen pfOUT pfINa pfINb pfINc x s =
      (Inr ((defaults DataLen pfOUT)[nat (DataLen - 1) := ?v]),
       snd (CallRoxServer rt ''UNKNOWN'' (last_bar DataLen pfINa) (last_bar DataLen pfINb) x s))"
    using True assms(1) fits by (rule RoxSignal_value)
  have "(defaults DataLen pfOUT)[nat (DataLen - 1) := ?v] = defaults DataLen pfOUT"
    if "network_failure rt x"
  proof -
    from assms(3) that have "?v = 0" by (rule failure_gives_zero)
    with True show ?thesis by (simp only: defaults_update_zero)
  qed
  with run show ?thesis by blast
qed

text \<open>
  The service is unreachable (the connect fails), and the service answers with a text
  that is no number: both times the three stale slots come back as 0.0.
\<close>

theorem RoxSignal_absorbs_failures_witness:
  "host_contract 3 stale closes volumes
   \<and> payload_fits dec_crt (last_bar 3 closes) (last_bar 3 volumes)
   \<and> strtod dec_crt [] = None
   \<and> network_failure dec_crt ((reply 200 ''1.00'')\<lparr>connect_ok := False\<rparr>)
   \<and> fst (RoxSignal dec_crt 3 stale closes volumes []
            ((reply 200 ''1.00'')\<lparr>connect_ok := False\<rparr>) idle) = Inr [0, 0, 0]
   \<and> network_failure dec_crt (reply 500 ''Internal Server Error'')
   \<and> fst (RoxSignal dec_crt 3 stale closes volumes []
            (reply 500 ''Internal Server Error'') idle) = Inr [0, 0, 0]"
proof -
  note h1 = example_contract
  have h2: "0 < (3::int) \<longrightarrow> payload_fits dec_crt (last_bar 3 closes) (last_bar 3 volumes)"
    by (simp add: example_fits)
  have h3: "strtod dec_crt [] = None"
    by (simp add: dec_crt_def dec_strtod_empty)
  have f1: "network_failure dec_crt ((reply 200 ''1.00'')\<lparr>connect_ok := False\<rparr>)"
    by (simp add: network_failure_def)
  have f2: "network_failure dec_crt (reply 500 ''Internal Server Error'')"
    by (simp add: network_failure_def reply_chunk c_str_def dec_crt_def dec_strtod_text)
  from RoxSignal_absorbs_failures [OF h1 h2 h3, where pfINc = "[]"
        and x = "(reply 200 ''1.00'')\<lparr>connect_ok := False\<rparr>" and s = idle] f1
  have r1: "fst (RoxSignal dec_crt 3 stale closes volumes []
            ((reply 200 ''1.00'')\<lparr>connect_ok := False\<rparr>) idle) = Inr [0, 0, 0]"
    by (auto simp: example_defaults)
  from RoxSignal_absorbs_failures [OF h1 h2 h3, where pfINc = "[]"
        and x = "reply 500 ''Internal Server Error''" and s = idle] f2
  have r2: "fst (RoxSignal dec_crt 3 stale closes volumes []
            (reply 500 ''Internal Server Error'') idle) = Inr [0, 0, 0]"
    by (auto simp: example_defaults)
  from h1 example_fits h3 f1 r1 f2 r2 show ?thesis by blast
qed

subsection \<open>C3: failure and the signal 0.0\<close>

text \<open>
  Claim C3 says that the client reports a failure (a parse failure, a status outside 2xx,
  an empty body, a timeout) as an error that differs from a valid signal of 0.0. The code
  does not: an answer with status 500 and body \<open>1.00\<close> yields the signal 1.0, and an answer
  with status 200 and body \<open>0.00\<close> yields the same 0.0 as a failed connect.
\<close>

theorem client_error_counterexample:
  "fst (CallRoxServer dec_crt ''UNKNOWN'' 10 500 (reply 500 ''1.00'') idle) = Inr 1
   \<and> fst (CallRoxServer dec_crt ''UNKNOWN'' 10 500 (reply 200 ''0.00'') idle) = Inr 0
   \<and> fst (CallRoxServer dec_crt ''UNKNOWN'' 10 500
            ((reply 200 ''1.00'')\<lparr>connect_ok := False\<rparr>) idle) = Inr 0"
proof -
  have "\<not> chunk_readable ((reply 200 ''1.00'')\<lparr>connect_ok := False\<rparr>)"
    by (simp add: chunk_readable_def reaches_send_def)
  then show ?thesis
    by (simp only: CallRoxServer_value [OF example_payload_fits])
      (simp add: reply_readable reply_chunk c_str_def atof_def dec_crt_def dec_strtod_one
         dec_strtod_zero)
qed

text \<open>
  Claim C3, amended. \<open>CallRoxServer\<close> has no error outcome: it returns a float. The float
  is what \<open>atof\<close> gives for the chunk read when session open, connect, request open, send,
  receive and the size query succeed and the reported size is between 1 and 62, and 0.0
  in every other case. The HTTP status is not consulted: changing it changes nothing.
\<close>

theorem CallRoxServer_result_ignores_status:
  assumes "length (payload_text rt code p v) < 256"
  shows "fst (CallRoxServer rt code p v x s) =
           Inr (if chunk_readable x then atof rt (c_str (first_chunk x)) else 0)
       \<and> CallRoxServer rt code p v (x\<lparr>status := k\<rparr>) s = CallRoxServer rt code p v x s"
  using assms by (simp only: CallRoxServer_value CallRoxServer_status simp_thms)

theorem CallRoxServer_result_ignores_status_witness:
  "length (payload_text dec_crt ''UNKNOWN'' 10 500) < 256
   \<and> fst (CallRoxServer dec_crt ''UNKNOWN'' 10 500 (reply 200 ''1.00'') idle) =
       Inr (if chunk_readable (reply 200 ''1.00'')
            then atof dec_crt (c_str (first_chunk (reply 200 ''1.00''))) else 0)
   \<and> CallRoxServer dec_crt ''UNKNOWN'' 10 500 ((reply 200 ''1.00'')\<lparr>status := 500\<rparr>) idle
       = CallRoxServer dec_crt ''UNKNOWN'' 10 500 (reply 200 ''1.00'') idle"
  using example_payload_fits
    CallRoxServer_result_ignores_status [OF example_payload_fits, of "reply 200 ''1.00''" idle 500]
  by blast

subsection \<open>C4: timeouts\<close>

text \<open>
  Claim C4 says that every exchange is configured with a bounded timeout for connect,
  send and receive. The code configures none: the API calls of a complete exchange are
  the ten below, and no call that sets a timeout or an option is among them.
\<close>

theorem timeout_counterexample:
  "calls (snd (CallRoxServer dec_crt ''UNKNOWN'' 10 500 (reply 200 ''1.00'') idle)) =
     [WinHttpOpen ''RoxTdxBridge/1.0'', WinHttpConnect ''127.0.0.1'' 8000,
      WinHttpOpenRequest ''POST'' ''/api/tdx/calculate'',
      WinHttpSendRequest ''Content-Type: application/json''
        (payload_text dec_crt ''UNKNOWN'' 10 500),
      WinHttpReceiveResponse, WinHttpQueryDataAvailable, WinHttpReadData 4,
      WinHttpCloseHandle Request, WinHttpCloseHandle Connection, WinHttpCloseHandle Session]
   \<and> filter configures_timeout
        (calls (snd (CallRoxServer dec_crt ''UNKNOWN'' 10 500 (reply 200 ''1.00'') idle))) = []"
  by (simp add: example_exchange idle_def)

text \<open>
  Claim C4, amended. \<open>CallRoxServer\<close> never configures a timeout: whatever the outcome
  of the exchange, it makes no call that sets a timeout or an option, so the calls of
  that kind are those made before it. The bridge itself sets no bound on how long an
  invocation of the callback may block.
\<close>

theorem CallRoxServer_configures_no_timeout:
  "filter configures_timeout (calls (snd (CallRoxServer rt code p v x s))) =
     filter configures_timeout (calls s)"
  by (rule CallRoxServer_timeouts)

theorem CallRoxServer_configures_no_timeout_witness:
  "filter configures_timeout
     (calls (snd (CallRoxServer dec_crt ''UNKNOWN'' 10 500
        ((reply 200 ''1.00'')\<lparr>send_ok := False\<rparr>) idle))) = []"
  using CallRoxServer_configures_no_timeout
    [of dec_crt "''UNKNOWN''" 10 500 "(reply 200 ''1.00'')\<lparr>send_ok := False\<rparr>" idle]
  by (simp add: idle_def)

subsection \<open>C5: repeated invocations\<close>

text \<open>
  Claim C5 says that the second of two invocations with the same instrument, price and
  volume is served from a cache, so that one request is sent in total. The code has no
  cache: the two invocations below, on the same bars, send two requests.
\<close>

theorem cache_counterexample:
  "requests_sent
     (snd (RoxSignal dec_crt 3 stale closes volumes [] (reply 200 ''1.00'')
        (snd (RoxSignal dec_crt 3 stale closes volumes [] (reply 200 ''1.00'') idle)))) = 2"
  by (simp add: RoxSignal_requests [OF _ example_contract example_fits] reply_reaches_send
        idle_counts)

text \<open>
  Claim C5, amended. Nothing is cached: every invocation with \<open>DataLen > 0\<close> performs its
  own exchange, and sends one request whenever the session, the connection and the request
  handle are obtained. Two successive invocations on the same bars send two requests.
\<close>

theorem RoxSignal_sends_a_request_each_time:
  assumes "0 < DataLen"
    and "host_contract DataLen pfOUT pfINa pfINb" and "host_contract DataLen pfOUT' pfINa pfINb"
    and "payload_fits rt (last_bar DataLen pfINa) (last_bar DataLen pfINb)"
    and "reaches_send x1" and "reaches_send x2"
  shows "requests_sent (snd (RoxSignal rt DataLen pfOUT pfINa pfINb pfINc x1 s))
           = requests_sent s + 1
       \<and> requests_sent
           (snd (RoxSignal rt DataLen pfOUT' pfINa pfINb pfINc x2
              (snd (RoxSignal rt DataLen pfOUT pfINa pfINb pfINc x1 s))))
           = requests_sent s + 2"
  using assms(5,6)
  by (simp add: RoxSignal_requests [OF assms(1,2,4)] RoxSignal_requests [OF assms(1,3,4)])

theorem RoxSignal_sends_a_request_each_time_witness:
  "(0::int) < 3 \<and> host_contract 3 stale closes volumes
   \<and> payload_fits dec_crt (last_bar 3 closes) (last_bar 3 volumes)
   \<and> reaches_send (reply 200 ''1.00'')
   \<and> requests_sent (snd (RoxSignal dec_crt 3 stale closes volumes [] (reply 200 ''1.00'') idle))
       = requests_sent idle + 1
   \<and> requests_sent
       (snd (RoxSignal dec_crt 3 stale closes volumes [] (reply 200 ''1.00'')
          (snd (RoxSignal dec_crt 3 stale closes volumes [] (reply 200 ''1.00'') idle))))
       = requests_sent idle + 2"
proof -
  have h1: "(0::int) < 3" by simp
  note h2 = example_contract and h3 = example_fits
  have h4: "reaches_send (reply 200 ''1.00'')" by (rule reply_reaches_send)
  from RoxSignal_sends_a_request_each_time
    [OF h1 h2 h2 h3 h4 h4, where pfINc = "[]" and s = idle] h1 h2 h3 h4
  show ?thesis by blast
qed

subsection \<open>C6: a failure and the retry\<close>

text \<open>
  Claim C6 says that a failure is cached for a cooldown window, so that a retry within
  the window sends no new request. The code keeps nothing between invocations: after an
  answer with status 500 and a body that is no number, the last slot is 0.0, and the
  retry sends a second request.
\<close>

theorem cooldown_counterexample:
  "fst (RoxSignal dec_crt 3 stale closes volumes [] (reply 500 ''Internal Server Error'') idle)
     = Inr [0, 0, 0]
   \<and> requests_sent
       (snd (RoxSignal dec_crt 3 stale closes volumes [] (reply 500 ''Internal Server Error'')
          (snd (RoxSignal dec_crt 3 stale closes volumes []
             (reply 500 ''Internal Server Error'') idle)))) = 2"
proof -
  have "atof dec_crt (c_str (first_chunk (reply 500 ''Internal Server Error''))) = 0"
    by (simp add: reply_chunk c_str_def atof_def dec_crt_def dec_strtod_text)
  then have "fst (RoxSignal dec_crt 3 stale closes volumes []
      (reply 500 ''Internal Server Error'') idle) = Inr [0, 0, 0]"
    by (simp add: example_run)
  moreover have "requests_sent
       (snd (RoxSignal dec_crt 3 stale closes volumes [] (reply 500 ''Internal Server Error'')
          (snd (RoxSignal dec_crt 3 stale closes volumes []
             (reply 500 ''Internal Server Error'') idle)))) = 2"
    by (simp add: RoxSignal_requests [OF _ example_contract example_fits] reply_reaches_send
          idle_counts)
  ultimately show ?thesis by (rule conjI)
qed

text \<open>
  Claim C6, amended. After a failed exchange (a failing WinHTTP step, or a chunk that is
  no number; the HTTP status is not looked at) the caller receives the default-filled
  output, whose last slot is 0.0. The failure is not cached: a retried invocation on the
  same bars opens a new session, and sends a new request whenever it obtains its three
  handles.
\<close>

theorem RoxSignal_failure_not_cached:
  assumes "0 < DataLen"
    and "host_contract DataLen pfOUT pfINa pfINb" and "host_contract DataLen pfOUT' pfINa pfINb"
    and "payload_fits rt (last_bar DataLen pfINa) (last_bar DataLen pfINb)"
    and "strtod rt [] = None" and "network_failure rt x1"
  shows "fst (RoxSignal rt DataLen pfOUT pfINa pfINb pfINc x1 s) = Inr (defaults DataLen pfOUT)
       \<and> defaults DataLen pfOUT ! nat (DataLen - 1) = 0
       \<and> sessions_opened
           (snd (RoxSignal rt DataLen pfOUT' pfINa pfINb pfINc x2
              (snd (RoxSignal rt DataLen pfOUT pfINa pfINb pfINc x1 s))))
           = sessions_opened (snd (RoxSignal rt DataLen pfOUT pfINa pfINb pfINc x1 s)) + 1
       \<and> requests_sent
           (snd (RoxSignal rt DataLen pfOUT' pfINa pfINb pfINc x2
              (snd (RoxSignal rt DataLen pfOUT pfINa pfINb pfINc x1 s))))
           = requests_sent (snd (RoxSignal rt DataLen pfOUT pfINa pfINb pfINc x1 s))
               + (if reaches_send x2 then 1 else 0)"
proof -
  from assms(5,6) have "(if chunk_readable x1 then atof rt (c_str (first_chunk x1)) else 0) = 0"
    by (rule failure_gives_zero)
  with assms(1) have "fst (RoxSignal rt DataLen pfOUT pfINa pfINb pfINc x1 s)
      = Inr (defaults DataLen pfOUT)"
    by (simp add: RoxSignal_value [OF assms(1,2,4)] defaults_update_zero)
  moreover from assms(1) have "defaults DataLen pfOUT ! nat (DataLen - 1) = 0"
    by (simp add: defaults_nth)
  ultimately show ?thesis
    by (simp only: RoxSignal_sessions [OF assms(1,3,4)] RoxSignal_requests [OF assms(1,3,4)]
          simp_thms)
qed

theorem RoxSignal_failure_not_cached_witness:
  "(0::int) < 3 \<and> host_contract 3 stale closes volumes
   \<and> payload_fits dec_crt (last_bar 3 closes) (last_bar 3 volumes)
   \<and> strtod dec_crt [] = None
   \<and> network_failure dec_crt (reply 500 ''Internal Server Error'')
   \<and> fst (RoxSignal dec_crt 3 stale closes volumes [] (reply 500 ''Internal Server Error'') idle)
       = Inr (defaults 3 stale)
   \<and> defaults 3 stale ! nat (3 - 1) = 0
   \<and> sessions_opened
       (snd (RoxSignal dec_crt 3 stale closes volumes [] (reply 200 ''1.00'')
          (snd (RoxSignal dec_crt 3 stale closes volumes []
             (reply 500 ''Internal Server Error'') idle))))
       = sessions_opened (snd (RoxSignal dec_crt 3 stale closes volumes []
             (reply 500 ''Internal Server Error'') idle)) + 1
   \<and> requests_sent
       (snd (RoxSignal dec_crt 3 stale closes volumes [] (reply 200 ''1.00'')
          (snd (RoxSignal dec_crt 3 stale closes volumes []
             (reply 500 ''Internal Server Error'') idle))))
       = requests_sent (snd (RoxSignal dec_crt 3 stale closes volumes []
             (reply 500 ''Internal Server Error'') idle))
           + (if reaches_send (reply 200 ''1.00'') then 1 else 0)"
proof -
  have h1: "(0::int) < 3" by simp
  note h2 = example_contract and h3 = example_fits
  have h4: "strtod dec_crt [] = None"
    by (simp add: dec_crt_def dec_strtod_empty)
  have h5: "network_failure dec_crt (reply 500 ''Internal Server Error'')"
    by (simp add: network_failure_def reply_chunk c_str_def dec_crt_def dec_strtod_text)
  from RoxSignal_failure_not_cached [OF h1 h2 h2 h3 h4 h5, where pfINc = "[]" and s = idle
      and ?x2.0 = "reply 200 ''1.00''"] h1 h2 h3 h4 h5
  show ?thesis by blast
qed

subsection \<open>C7: an empty or negative length\<close>

text \<open>
  Claim C7. For every invocation with \<open>DataLen \<le> 0\<close> the callback returns with no side
  effect: the output buffer is returned as it was passed, whatever it holds, and the
  WinHTTP state is unchanged, so no API call is made and no request is sent.
\<close>

theorem RoxSignal_empty_input:
  assumes "DataLen \<le> 0"
  shows "RoxSignal rt DataLen pfOUT pfINa pfINb pfINc x s = (Inr pfOUT, s)"
  using assms by (rule RoxSignal_nothing_to_do)

theorem RoxSignal_empty_input_witness:
  "(0::int) \<le> 0 \<and> RoxSignal dec_crt 0 [] [] [] [] (reply 200 ''1.00'') idle = (Inr [], idle)
   \<and> (-1::int) \<le> 0
   \<and> RoxSignal dec_crt (-1) stale closes volumes [] (reply 200 ''1.00'') idle = (Inr stale, idle)"
proof -
  have h0: "(0::int) \<le> 0" and h1: "(-1::int) \<le> 0" by simp_all
  show ?thesis
    using RoxSignal_empty_input [OF h0, of dec_crt "[]" "[]" "[]" "[]" "reply 200 ''1.00''" idle]
      RoxSignal_empty_input [OF h1, of dec_crt stale closes volumes "[]" "reply 200 ''1.00''" idle]
    by simp
qed

subsection \<open>C8: the session\<close>

text \<open>
  Claim C8 says that the client keeps one session open and reuses it from call to call.
  The code does not: after a call no handle is left open, and a second call opens a
  second session.
\<close>

theorem session_counterexample:
  "live (snd (CallRoxServer dec_crt ''UNKNOWN'' 10 500 (reply 200 ''1.00'') idle)) = []
   \<and> sessions_opened
       (snd (CallRoxServer dec_crt ''UNKNOWN'' 10 500 (reply 200 ''1.00'')
          (snd (CallRoxServer dec_crt ''UNKNOWN'' 10 500 (reply 200 ''1.00'') idle)))) = 2"
  by (simp add: CallRoxServer_live [OF example_payload_fits] CallRoxServer_sessions
        idle_counts) (simp add: idle_def)

text \<open>
  Claim C8, amended. \<open>CallRoxServer\<close> holds no session across calls: every call begins
  by opening a new session with \<open>WinHttpOpen\<close>, and before it returns it closes every
  handle it obtained, so the handles open after the call are those open before it.
\<close>

theorem CallRoxServer_session_per_call:
  assumes "length (payload_text rt code p v) < 256"
  shows "(\<exists>t. calls (snd (CallRoxServer rt code p v x s))
               = calls s @ WinHttpOpen ''RoxTdxBridge/1.0'' # t)
       \<and> sessions_opened (snd (CallRoxServer rt code p v x s)) = sessions_opened s + 1
       \<and> live (snd (CallRoxServer rt code p v x s)) = live s"
  using CallRoxServer_first_call [of rt code p v x s] CallRoxServer_sessions [of rt code p v x s]
    CallRoxServer_live [OF assms, of x s]
  by (intro conjI)

theorem CallRoxServer_session_per_call_witness:
  "length (payload_text dec_crt ''UNKNOWN'' 10 500) < 256
   \<and> (\<exists>t. calls (snd (CallRoxServer dec_crt ''UNKNOWN'' 10 500 (reply 200 ''1.00'') idle))
               = calls idle @ WinHttpOpen ''RoxTdxBridge/1.0'' # t)
   \<and> sessions_opened (snd (CallRoxServer dec_crt ''UNKNOWN'' 10 500 (reply 200 ''1.00'') idle))
       = sessions_opened idle + 1
   \<and> live (snd (CallRoxServer dec_crt ''UNKNOWN'' 10 500 (reply 200 ''1.00'') idle)) = live idle"
  using example_payload_fits
    CallRoxServer_session_per_call [OF example_payload_fits, of "reply 200 ''1.00''" idle]
  by blast

subsection \<open>C9: the request body\<close>

text \<open>
  Claim C9 says that the \<open>code\<close> field of the request carries the placeholder \<open>unknown\<close>.
  The text that the callback sends spells it \<open>UNKNOWN\<close>, in capitals.
\<close>

theorem placeholder_counterexample:
  \<open>request_bodies
     (snd (RoxSignal dec_crt 3 stale closes volumes [] (reply 200 ''1.00'') idle))
     = [''{"code":"UNKNOWN", "price":10.00, "vol":500.00}'']
   \<and> request_bodies
       (snd (RoxSignal dec_crt 3 stale closes volumes [] (reply 200 ''1.00'') idle))
     \<noteq> [''{"code":"unknown", "price":10.00, "vol":500.00}'']\<close>
  by (simp add: RoxSignal_bodies [OF _ example_contract example_fits] reply_reaches_send
        idle_counts last_bars payload_example)

text \<open>
  Claim C9, amended. Whenever the callback sends a request, its body is the JSON object
  with the three fields \<open>code\<close>, \<open>price\<close> and \<open>vol\<close>, in this order: the code is the
  placeholder \<open>UNKNOWN\<close>, and price and volume are those of the last bar, both printed
  with \<open>%.2f\<close>.
\<close>

theorem RoxSignal_request_body:
  assumes "0 < DataLen" and "host_contract DataLen pfOUT pfINa pfINb"
    and "payload_fits rt (last_bar DataLen pfINa) (last_bar DataLen pfINb)"
    and "reaches_send x"
  shows \<open>request_bodies (snd (RoxSignal rt DataLen pfOUT pfINa pfINb pfINc x s)) =
           request_bodies s @
             [''{"code":"UNKNOWN", "price":'' @ printf_2f rt (last_bar DataLen pfINa)
                @ '', "vol":'' @ printf_2f rt (last_bar DataLen pfINb) @ ''}'']\<close>
  using assms(4) by (simp add: RoxSignal_bodies [OF assms(1,2,3)] payload_text_def)

theorem RoxSignal_request_body_witness:
  \<open>(0::int) < 3 \<and> host_contract 3 stale closes volumes
   \<and> payload_fits dec_crt (last_bar 3 closes) (last_bar 3 volumes)
   \<and> reaches_send (reply 200 ''1.00'')
   \<and> request_bodies
       (snd (RoxSignal dec_crt 3 stale closes volumes [] (reply 200 ''1.00'') idle)) =
         request_bodies idle @
           [''{"code":"UNKNOWN", "price":'' @ printf_2f dec_crt (last_bar 3 closes)
              @ '', "vol":'' @ printf_2f dec_crt (last_bar 3 volumes) @ ''}'']\<close>
proof -
  have h1: "(0::int) < 3" by simp
  note h2 = example_contract and h3 = example_fits
  have h4: "reaches_send (reply 200 ''1.00'')" by (rule reply_reaches_send)
  from RoxSignal_request_body [OF h1 h2 h3 h4, where pfINc = "[]" and s = idle] h1 h2 h3 h4
  show ?thesis by blast
qed

subsection \<open>C10: the size window of the response\<close>

text \<open>
  Claim C10. \<open>CallRoxServer\<close> returns a nonzero signal only when the size reported for the
  first chunk is between 1 and 62 bytes and the text read parses (through \<open>atof\<close>) as that
  nonzero number. When the reported size is 0 or at least 63, and when the text read
  parses to zero or does not parse, it returns exactly 0.0.
\<close>

theorem CallRoxServer_size_window:
  assumes "length (payload_text rt code p v) < 256"
  shows "(\<forall>r. fst (CallRoxServer rt code p v x s) = Inr r \<and> r \<noteq> 0 \<longrightarrow>
            1 \<le> unat (avail x) \<and> unat (avail x) \<le> 62
            \<and> strtod rt (c_str (first_chunk x)) = Some r)
       \<and> (avail x = 0 \<or> 63 \<le> avail x \<or> strtod rt (c_str (first_chunk x)) = None
            \<or> strtod rt (c_str (first_chunk x)) = Some 0
           \<longrightarrow> fst (CallRoxServer rt code p v x s) = Inr 0)"
proof -
  let ?v = "if chunk_readable x then atof rt (c_str (first_chunk x)) else 0"
  from assms have val: "fst (CallRoxServer rt code p v x s) = Inr ?v"
    by (rule CallRoxServer_value)
  have window: "1 \<le> unat (avail x) \<and> unat (avail x) \<le> 62" if "chunk_readable x"
  proof -
    from that have "0 < avail x" and "avail x < 63"
      by (simp_all add: chunk_readable_def)
    then have "0 < unat (avail x)" and "unat (avail x) < 63"
      by (simp_all add: word_less_nat_alt)
    then show ?thesis by simp
  qed
  have nonzero: "1 \<le> unat (avail x) \<and> unat (avail x) \<le> 62
      \<and> strtod rt (c_str (first_chunk x)) = Some r" if "?v = r" and "r \<noteq> 0" for r
  proof -
    from that have cr: "chunk_readable x" by (auto split: if_splits)
    with that have "atof rt (c_str (first_chunk x)) = r" by simp
    with \<open>r \<noteq> 0\<close> have "strtod rt (c_str (first_chunk x)) = Some r"
      by (auto simp: atof_def split: option.splits)
    with window [OF cr] show ?thesis by simp
  qed
  have zero: "?v = 0"
    if bad: "avail x = 0 \<or> 63 \<le> avail x \<or> strtod rt (c_str (first_chunk x)) = None
            \<or> strtod rt (c_str (first_chunk x)) = Some 0"
  proof (cases "chunk_readable x")
    case False
    then show ?thesis by simp
  next
    case True
    then have "0 < avail x" and "avail x < 63"
      by (simp_all add: chunk_readable_def)
    then have "avail x \<noteq> 0" and "\<not> 63 \<le> avail x"
      by simp_all
    with bad have "strtod rt (c_str (first_chunk x)) = None
        \<or> strtod rt (c_str (first_chunk x)) = Some 0"
      by blast
    then have "atof rt (c_str (first_chunk x)) = 0"
      unfolding atof_def by (elim disjE) simp_all
    with True show ?thesis by simp
  qed
  have first: "\<forall>r. fst (CallRoxServer rt code p v x s) = Inr r \<and> r \<noteq> 0 \<longrightarrow>
            1 \<le> unat (avail x) \<and> unat (avail x) \<le> 62
            \<and> strtod rt (c_str (first_chunk x)) = Some r"
  proof (intro allI impI)
    fix r
    assume a: "fst (CallRoxServer rt code p v x s) = Inr r \<and> r \<noteq> 0"
    with val have "Inr ?v = (Inr r :: fault + 'a)" by (simp only:)
    then have "?v = r" by (simp only: sum.inject)
    moreover from a have "r \<noteq> 0" by (rule conjunct2)
    ultimately show "1 \<le> unat (avail x) \<and> unat (avail x) \<le> 62
        \<and> strtod rt (c_str (first_chunk x)) = Some r"
      by (rule nonzero)
  qed
  have second: "avail x = 0 \<or> 63 \<le> avail x \<or> strtod rt (c_str (first_chunk x)) = None
            \<or> strtod rt (c_str (first_chunk x)) = Some 0
           \<longrightarrow> fst (CallRoxServer rt code p v x s) = Inr 0"
  proof (rule impI)
    assume "avail x = 0 \<or> 63 \<le> avail x \<or> strtod rt (c_str (first_chunk x)) = None
            \<or> strtod rt (c_str (first_chunk x)) = Some 0"
    then have "?v = 0" by (rule zero)
    with val show "fst (CallRoxServer rt code p v x s) = Inr 0" by (simp only:)
  qed
  from first second show ?thesis by (rule conjI)
qed

text \<open>
  An answer of four bytes, \<open>1.00\<close>, gives the signal 1.0; the same answer announced with
  a size of 63 bytes gives 0.0.
\<close>

theorem CallRoxServer_size_window_witness:
  "length (payload_text dec_crt ''UNKNOWN'' 10 500) < 256
   \<and> fst (CallRoxServer dec_crt ''UNKNOWN'' 10 500 (reply 200 ''1.00'') idle) = Inr 1
   \<and> 1 \<le> unat (avail (reply 200 ''1.00'')) \<and> unat (avail (reply 200 ''1.00'')) \<le> 62
   \<and> strtod dec_crt (c_str (first_chunk (reply 200 ''1.00''))) = Some 1
   \<and> 63 \<le> avail ((reply 200 ''1.00'')\<lparr>avail := 63\<rparr>)
   \<and> fst (CallRoxServer dec_crt ''UNKNOWN'' 10 500 ((reply 200 ''1.00'')\<lparr>avail := 63\<rparr>) idle)
        = Inr 0"
proof -
  note h = example_payload_fits
  have one: "fst (CallRoxServer dec_crt ''UNKNOWN'' 10 500 (reply 200 ''1.00'') idle) = Inr 1"
    by (simp add: example_exchange)
  then have "fst (CallRoxServer dec_crt ''UNKNOWN'' 10 500 (reply 200 ''1.00'') idle) = Inr 1
      \<and> (1::real) \<noteq> 0"
    by simp
  with CallRoxServer_size_window [OF h, of "reply 200 ''1.00''" idle]
  have window: "1 \<le> unat (avail (reply 200 ''1.00'')) \<and> unat (avail (reply 200 ''1.00'')) \<le> 62
      \<and> strtod dec_crt (c_str (first_chunk (reply 200 ''1.00''))) = Some 1"
    by blast
  have big: "63 \<le> avail ((reply 200 ''1.00'')\<lparr>avail := 63\<rparr>)"
    by simp
  with CallRoxServer_size_window [OF h, of "(reply 200 ''1.00'')\<lparr>avail := 63\<rparr>" idle]
  have zero: "fst (CallRoxServer dec_crt ''UNKNOWN'' 10 500
      ((reply 200 ''1.00'')\<lparr>avail := 63\<rparr>) idle) = Inr 0"
    by blast
  from h one window big zero show ?thesis by blast
qed

end
